theory Spec2Isabelle
  imports Complex_Main "HOL-Library.Word" "HOL-Library.Stream"
begin

section \<open>JavaScript values, objects and the store\<close>

text \<open>
  The instrumented code is TypeScript. A parameter of type \<open>any\<close> holds any JavaScript
  value; objects are reached through references, so a hook that is handed a request can
  write through it. Values are modelled with their ECMAScript types, objects as own
  data properties in a store of addresses.
\<close>

type_synonym addr = nat

datatype number = NaN | PosInfinity | NegInfinity | Finite real

datatype jsval =
    Undefined
  | Null
  | Bool bool
  | Num number
  | Str string
  | BigInt int
  | Symbol string
  | Ref addr

text \<open>An object is the mapping of its own property names to values.\<close>

type_synonym object = "string \<Rightarrow> jsval option"

text \<open>
  The store: the object held at every address, and the next address the allocator
  hands out. Addresses below \<open>fresh\<close> are the objects that exist.
\<close>

record heap =
  cells :: "addr \<Rightarrow> object"
  fresh :: addr

datatype error =
    TypeError
  | RangeError
  | SyntaxError
  | TimeoutError
  | StatusCodeError "int option"
  | RequestError string

definition and_then :: "error + 'a \<Rightarrow> ('a \<Rightarrow> error + 'b) \<Rightarrow> error + 'b" where
  "and_then m f = (case m of Inl e \<Rightarrow> Inl e | Inr x \<Rightarrow> f x)"

text \<open>
  \<open>ToBoolean\<close> of ECMAScript, the test an \<open>if (v)\<close> makes: undefined, null, false,
  zero (of either sign), NaN, the empty string and \<open>0n\<close> are falsy, every other value
  is truthy.
\<close>

fun ToBoolean :: "jsval \<Rightarrow> bool" where
  "ToBoolean Undefined = False"
| "ToBoolean Null = False"
| "ToBoolean (Bool b) = b"
| "ToBoolean (Num NaN) = False"
| "ToBoolean (Num (Finite r)) = (r \<noteq> 0)"
| "ToBoolean (Num PosInfinity) = True"
| "ToBoolean (Num NegInfinity) = True"
| "ToBoolean (Str s) = (s \<noteq> [])"
| "ToBoolean (BigInt i) = (i \<noteq> 0)"
| "ToBoolean (Symbol s) = True"
| "ToBoolean (Ref a) = True"

text \<open>
  \<open>{}\<close> and object literals allocate: the new object takes the next address.
\<close>

definition alloc :: "heap \<Rightarrow> object \<Rightarrow> heap \<times> addr" where
  "alloc h obj = (h\<lparr>cells := (cells h)(fresh h := obj), fresh := Suc (fresh h)\<rparr>, fresh h)"

text \<open>\<open>o[k] = v\<close> on an ordinary object at address \<open>a\<close>.\<close>

definition put :: "heap \<Rightarrow> addr \<Rightarrow> string \<Rightarrow> jsval \<Rightarrow> heap" where
  "put h a k v = h\<lparr>cells := (cells h)(a := (cells h a)(k \<mapsto> v))\<rparr>"

text \<open>
  \<open>v.k\<close>: a property read throws a TypeError on undefined and null, reads the property
  of an object (undefined when it has none), and gives undefined on the other
  primitives for the names read in this development (\<open>commandInput\<close>, \<open>StreamName\<close>),
  which no primitive's prototype defines.
\<close>

definition member :: "heap \<Rightarrow> jsval \<Rightarrow> string \<Rightarrow> error + jsval" where
  "member h v k =
     (case v of
        Undefined \<Rightarrow> Inl TypeError
      | Null \<Rightarrow> Inl TypeError
      | Ref a \<Rightarrow> Inr (case cells h a k of None \<Rightarrow> Undefined | Some x \<Rightarrow> x)
      | _ \<Rightarrow> Inr Undefined)"

text \<open>\<open>v?.k\<close>: optional chaining gives undefined on undefined and null instead of throwing.\<close>

definition optional_member :: "heap \<Rightarrow> jsval \<Rightarrow> string \<Rightarrow> error + jsval" where
  "optional_member h v k =
     (case v of
        Undefined \<Rightarrow> Inr Undefined
      | Null \<Rightarrow> Inr Undefined
      | _ \<Rightarrow> member h v k)"

section \<open>The Kinesis service extension\<close>

text \<open>\<open>SpanKind\<close> of the tracing API.\<close>

datatype SpanKind = INTERNAL | SERVER | CLIENT | PRODUCER | CONSUMER

text \<open>
  The enum \<open>AttributeNames\<close> is declared in \<open>../enums\<close>; the hook uses one member of it,
  whose string value is taken as given.
\<close>

record AttributeNames =
  AWS_KINESIS_STREAM_NAME :: string

text \<open>
  \<open>RequestMetadata\<close>. The hook returns \<open>spanAttributes\<close> as the object it built, that is
  as a reference (\<open>'a = addr\<close>); \<open>returned\<close> below reads the object's contents off the
  store (\<open>'a = object\<close>).
\<close>

record 'a RequestMetadata =
  isIncoming :: bool
  spanAttributes :: 'a
  spanKind :: SpanKind

text \<open>
  \<open>KinesisServiceExtension.requestPreSpanHook(request, _config)\<close>. The request and the
  configuration are objects of the caller, passed by reference; their types
  (\<open>NormalizedRequest\<close>, \<open>AwsSdkInstrumentationConfig\<close>) are declared in \<open>../types\<close>. The
  hook reads the request's \<open>commandInput\<close> and nothing of the configuration.
\<close>

definition requestPreSpanHook ::
  "AttributeNames \<Rightarrow> heap \<Rightarrow> addr \<Rightarrow> addr \<Rightarrow> error + (heap \<times> addr RequestMetadata)" where
  "requestPreSpanHook AttributeNames h request config =
     and_then (member h (Ref request) ''commandInput'') (\<lambda>commandInput.
     and_then (optional_member h commandInput ''StreamName'') (\<lambda>streamName.
       let spanKind = CLIENT;
           (h, spanAttributes) = alloc h Map.empty;
           h = (if ToBoolean streamName
                then put h spanAttributes (AWS_KINESIS_STREAM_NAME AttributeNames) streamName
                else h);
           isIncoming = False
       in Inr (h, \<lparr>isIncoming = isIncoming, spanAttributes = spanAttributes, spanKind = spanKind\<rparr>)))"

text \<open>
  What the caller holds after the call: the thrown error, or the metadata with the
  attribute object's contents.
\<close>

definition returned :: "error + (heap \<times> addr RequestMetadata) \<Rightarrow> error + object RequestMetadata" where
  "returned r =
     (case r of
        Inl e \<Rightarrow> Inl e
      | Inr (h, md) \<Rightarrow>
          Inr \<lparr>isIncoming = isIncoming md,
               spanAttributes = cells h (spanAttributes md),
               spanKind = spanKind md\<rparr>)"

text \<open>
  The \<open>StreamName\<close> entry of the request's \<open>commandInput\<close> mapping, as the caller wrote
  it: \<open>None\<close> when the request has no \<open>commandInput\<close> object or the mapping has no such
  entry.
\<close>

definition StreamName_field :: "heap \<Rightarrow> addr \<Rightarrow> jsval option" where
  "StreamName_field h request =
     (case cells h request ''commandInput'' of
        Some (Ref input) \<Rightarrow> cells h input ''StreamName''
      | _ \<Rightarrow> None)"

text \<open>
  A store for the examples: a \<open>PutRecord\<close> request at address 0 whose \<open>commandInput\<close>
  is the object at address 1, a \<open>GetRecords\<close> request at address 3 with no
  \<open>commandInput\<close>, and the configuration at address 2.
\<close>

definition example_names :: AttributeNames where
  "example_names = \<lparr>AWS_KINESIS_STREAM_NAME = ''aws.kinesis.stream.name''\<rparr>"

definition example_heap :: heap where
  "example_heap =
     \<lparr>cells = (\<lambda>a. Map.empty)
        (0 := [''serviceIdentifier'' \<mapsto> Str ''Kinesis'', ''operationName'' \<mapsto> Str ''PutRecord'',
               ''commandInput'' \<mapsto> Ref 1, ''region'' \<mapsto> Str ''us-east-1''],
         1 := [''StreamName'' \<mapsto> Str ''orders-stream'', ''PartitionKey'' \<mapsto> Str ''k'',
               ''Data'' \<mapsto> Str ''payload''],
         2 := [''suppressInternalInstrumentation'' \<mapsto> Bool False],
         3 := [''serviceIdentifier'' \<mapsto> Str ''Kinesis'', ''operationName'' \<mapsto> Str ''GetRecords'',
               ''commandInput'' \<mapsto> Undefined]),
      fresh = 4\<rparr>"

text \<open>The same objects in a store that holds one more, unrelated object.\<close>

definition example_heap_later :: heap where
  "example_heap_later =
     example_heap\<lparr>cells := (cells example_heap)(4 := [''unrelated'' \<mapsto> Num (Finite 1)]),
                  fresh := 5\<rparr>"

section \<open>Random bytes of the browser id generator\<close>

text \<open>
  A JavaScript array of numbers. Its elements are a list, \<open>None\<close> for a hole, of at
  most \<open>2^32 - 1\<close> entries: the indices of an array are the integers below that bound.
  A property under a larger integer is an ordinary property of the object, kept apart
  from the elements.
\<close>

typedef array = "{(es :: int option list, ps :: nat \<Rightarrow> int option). length es \<le> 4294967295}"
  by (rule exI [of _ "([], \<lambda>k. None)"]) simp

setup_lifting type_definition_array

lift_definition elements :: "array \<Rightarrow> int option list" is fst .

lift_definition properties :: "array \<Rightarrow> nat \<Rightarrow> int option" is snd .

text \<open>The array literal with the given elements (cut at the bound).\<close>

lift_definition array_of :: "int option list \<Rightarrow> array" is
  "\<lambda>es. (take 4294967295 es, \<lambda>k. None)"
  by simp

text \<open>\<open>Array(n)\<close> makes an array of \<open>n\<close> holes, and throws a RangeError past the bound.\<close>

definition Array :: "nat \<Rightarrow> error + array" where
  "Array n = (if n \<le> 4294967295 then Inr (array_of (replicate n None)) else Inl RangeError)"

text \<open>
  \<open>arr[i] = v\<close>: at an index, a write past the end extends the array, leaving holes
  between; at an integer that is no index, it sets a property and the array keeps its
  length.
\<close>

lift_definition assign :: "array \<Rightarrow> nat \<Rightarrow> int \<Rightarrow> array" is
  "\<lambda>(es, ps) i v.
     if i < 4294967295
     then (if i < length es then es[i := Some v]
           else es @ replicate (i - length es) None @ [Some v], ps)
     else (es, ps(i \<mapsto> v))"
  by (auto split: prod.splits)

text \<open>
  \<open>arr[i]\<close>: a hole and an index past the end both read as undefined; an integer that
  is no index reads the property.
\<close>

definition element :: "array \<Rightarrow> nat \<Rightarrow> int option" where
  "element arr i =
     (if i < 4294967295
      then (if i < length (elements arr) then elements arr ! i else None)
      else properties arr i)"

text \<open>
  \<open>arr.slice(start, end)\<close> of ECMAScript, on the elements: a negative bound counts from
  the end of the array, and both bounds are clamped to the array.
\<close>

definition slice :: "'a list \<Rightarrow> int \<Rightarrow> int \<Rightarrow> 'a list" where
  "slice arr start final =
     (let len = int (length arr);
          k = (if start < 0 then max (len + start) 0 else min start len);
          e = (if final < 0 then max (len + final) 0 else min final len)
      in take (nat (e - k)) (drop (nat k) arr))"

text \<open>
  \<open>String.fromCharCode.apply(null, codes)\<close>. \<open>apply\<close> passes every element as an
  argument of its own, and an engine accepts a bounded number of arguments: past
  \<open>max_arguments\<close>, which differs between engines and is taken as given, the call
  throws a RangeError. Otherwise the string has one UTF-16 code unit per element, the
  element's number modulo \<open>2^16\<close>; undefined (a hole) converts to 0.
\<close>

definition fromCharCode_apply :: "nat \<Rightarrow> int option list \<Rightarrow> error + 16 word list" where
  "fromCharCode_apply max_arguments codes =
     (if max_arguments < length codes then Inl RangeError
      else Inr (map (\<lambda>c. case c of None \<Rightarrow> 0 | Some n \<Rightarrow> word_of_int n) codes))"

text \<open>
  The state the function works on: the module-level array it shares between calls, and
  the draws \<open>Math.random()\<close> is going to return, each a number in \<open>[0, 1)\<close>.
\<close>

record world =
  SHARED_CHAR_CODES_ARRAY :: array
  Math_random :: "real stream"

text \<open>
  The module as loaded: \<open>SHARED_CHAR_CODES_ARRAY = Array(TRACE_ID_BYTES * 2)\<close>. The
  constant is imported from \<open>../../internal/xray-id-generation\<close> and taken as given.
\<close>

definition module_loaded :: "nat \<Rightarrow> real stream \<Rightarrow> error + world" where
  "module_loaded TRACE_ID_BYTES draws =
     (case Array (TRACE_ID_BYTES * 2) of
        Inl thrown \<Rightarrow> Inl thrown
      | Inr arr \<Rightarrow> Inr \<lparr>SHARED_CHAR_CODES_ARRAY = arr, Math_random = draws\<rparr>)"

text \<open>
  The body of the \<open>for\<close> loop at index \<open>i\<close>. A draw times 16 is exact in floating point,
  so the floor is taken of the real product.
\<close>

definition loop_body :: "nat \<Rightarrow> world \<Rightarrow> world" where
  "loop_body i w =
     (let arr = assign (SHARED_CHAR_CODES_ARRAY w) i (\<lfloor>shd (Math_random w) * 16\<rfloor> + 48);
          arr = (case element arr i of
                   Some c \<Rightarrow> if c \<ge> 58 then assign arr i (c + 39) else arr
                 | None \<Rightarrow> arr)
      in \<lparr>SHARED_CHAR_CODES_ARRAY = arr, Math_random = stl (Math_random w)\<rparr>)"

text \<open>
  \<open>for (let i = 0; i < bytes * 2; i++)\<close>, from index \<open>i\<close> on. The count and the counter
  are integers, as they are in JavaScript's numbers below \<open>2^53\<close>.
\<close>

function generateRandomBytes_loop :: "int \<Rightarrow> nat \<Rightarrow> world \<Rightarrow> world" where
  "generateRandomBytes_loop bytes i w =
     (if int i < bytes * 2 then generateRandomBytes_loop bytes (Suc i) (loop_body i w) else w)"
  by pat_completeness auto
termination
  by (relation "measure (\<lambda>(bytes, i, w). nat (bytes * 2 - int i))") auto

declare generateRandomBytes_loop.simps [simp del]

text \<open>
  \<open>generateRandomBytes(bytes)\<close> on an engine with the given argument limit: the string
  returned, or the error thrown, and the state left behind.
\<close>

definition generateRandomBytes :: "nat \<Rightarrow> int \<Rightarrow> world \<Rightarrow> (error + 16 word list) \<times> world" where
  "generateRandomBytes max_arguments bytes w =
     (let w = generateRandomBytes_loop bytes 0 w
      in (fromCharCode_apply max_arguments
            (slice (elements (SHARED_CHAR_CODES_ARRAY w)) 0 (bytes * 2)), w))"

text \<open>The code unit one draw is turned into.\<close>

definition hex_code :: "real \<Rightarrow> int" where
  "hex_code r = (let c = \<lfloor>r * 16\<rfloor> + 48 in if c \<ge> 58 then c + 39 else c)"

definition lowercase_hex_digit :: "16 word \<Rightarrow> bool" where
  "lowercase_hex_digit c \<longleftrightarrow> (48 \<le> unat c \<and> unat c \<le> 57) \<or> (97 \<le> unat c \<and> unat c \<le> 102)"

text \<open>
  Two states for the examples: the module as loaded with \<open>TRACE_ID_BYTES = 16\<close>, and the
  module after earlier calls have filled the array with the code of \<open>f\<close>. Their next four
  draws are the same. The argument limit of the examples is 65536.
\<close>

definition example_world :: world where
  "example_world =
     \<lparr>SHARED_CHAR_CODES_ARRAY = array_of (replicate 32 None),
      Math_random = [0, 1/2, 15/16, 5/8] @- sconst 0\<rparr>"

definition example_world_used :: world where
  "example_world_used =
     \<lparr>SHARED_CHAR_CODES_ARRAY = array_of (replicate 32 (Some 102)),
      Math_random = [0, 1/2, 15/16, 5/8, 1/4] @- sconst (1/2)\<rparr>"

definition example_max_arguments :: nat where
  "example_max_arguments = 65536"

section \<open>The Azure VM resource detector\<close>

text \<open>What \<open>JSON.parse\<close> returns.\<close>

datatype json =
    JNull
  | JBool bool
  | JNumber real
  | JString string
  | JArray "json list"
  | JObject "(string \<times> json) list"

text \<open>
  \<open>metadata[k]\<close> on a parsed value, \<open>None\<close> for undefined: a TypeError on null, the member
  of an object, and undefined on a boolean, number, string or array for the names read
  here (none is \<open>length\<close> or an index).
\<close>

definition property :: "json \<Rightarrow> string \<Rightarrow> error + json option" where
  "property v k =
     (case v of
        JNull \<Rightarrow> Inl TypeError
      | JObject members \<Rightarrow> Inr (map_of members k)
      | _ \<Rightarrow> Inr None)"

text \<open>
  The attribute names and values the detector imports: three names from \<open>../types\<close>, the
  others from the semantic conventions package. Their string values are taken as given.
\<close>

record constants =
  AZURE_VM_SCALE_SET_NAME_ATTRIBUTE :: string
  AZURE_VM_SKU_ATTRIBUTE :: string
  SEMRESATTRS_CLOUD_PLATFORM :: string
  SEMRESATTRS_CLOUD_PROVIDER :: string
  SEMRESATTRS_CLOUD_REGION :: string
  CLOUD_RESOURCE_ID_RESOURCE_ATTRIBUTE :: string
  SEMRESATTRS_HOST_ID :: string
  SEMRESATTRS_HOST_NAME :: string
  SEMRESATTRS_HOST_TYPE :: string
  SEMRESATTRS_OS_VERSION :: string
  CLOUDPLATFORMVALUES_AZURE_VM :: string
  CLOUDPROVIDERVALUES_AZURE :: string

text \<open>The ten names, as \<open>detect\<close> lists them in \<open>attrNames\<close>.\<close>

definition attrNames :: "constants \<Rightarrow> string list" where
  "attrNames C =
     [AZURE_VM_SCALE_SET_NAME_ATTRIBUTE C,
      AZURE_VM_SKU_ATTRIBUTE C,
      SEMRESATTRS_CLOUD_PLATFORM C,
      SEMRESATTRS_CLOUD_PROVIDER C,
      SEMRESATTRS_CLOUD_REGION C,
      CLOUD_RESOURCE_ID_RESOURCE_ATTRIBUTE C,
      SEMRESATTRS_HOST_ID C,
      SEMRESATTRS_HOST_NAME C,
      SEMRESATTRS_HOST_TYPE C,
      SEMRESATTRS_OS_VERSION C]"

text \<open>
  \<open>DetectedResourceAttributes\<close>: a key of the object maps to its value, \<open>Some None\<close> for a
  key that is present with the value undefined.
\<close>

type_synonym DetectedResourceAttributes = "string \<Rightarrow> json option option"

text \<open>The object literal \<open>attributes\<close>, its members evaluated in order.\<close>

definition attributes_of :: "constants \<Rightarrow> json \<Rightarrow> error + DetectedResourceAttributes" where
  "attributes_of C metadata =
     and_then (property metadata ''vmScaleSetName'') (\<lambda>vmScaleSetName.
     and_then (property metadata ''sku'') (\<lambda>sku.
     and_then (property metadata ''location'') (\<lambda>location.
     and_then (property metadata ''resourceId'') (\<lambda>resourceId.
     and_then (property metadata ''vmId'') (\<lambda>vmId.
     and_then (property metadata ''name'') (\<lambda>name.
     and_then (property metadata ''vmSize'') (\<lambda>vmSize.
     and_then (property metadata ''version'') (\<lambda>version.
       Inr (Map.empty
         (AZURE_VM_SCALE_SET_NAME_ATTRIBUTE C \<mapsto> vmScaleSetName,
          AZURE_VM_SKU_ATTRIBUTE C \<mapsto> sku,
          SEMRESATTRS_CLOUD_PLATFORM C \<mapsto> Some (JString (CLOUDPLATFORMVALUES_AZURE_VM C)),
          SEMRESATTRS_CLOUD_PROVIDER C \<mapsto> Some (JString (CLOUDPROVIDERVALUES_AZURE C)),
          SEMRESATTRS_CLOUD_REGION C \<mapsto> location,
          CLOUD_RESOURCE_ID_RESOURCE_ATTRIBUTE C \<mapsto> resourceId,
          SEMRESATTRS_HOST_ID C \<mapsto> vmId,
          SEMRESATTRS_HOST_NAME C \<mapsto> name,
          SEMRESATTRS_HOST_TYPE C \<mapsto> vmSize,
          SEMRESATTRS_OS_VERSION C \<mapsto> version))))))))))"

text \<open>A promise settles once: \<open>resolve\<close> and \<open>reject\<close> act on a pending promise only.\<close>

datatype 'a promise = Pending | Fulfilled 'a | Rejected error

definition resolve :: "'a \<Rightarrow> 'a promise \<Rightarrow> 'a promise" where
  "resolve v p = (case p of Pending \<Rightarrow> Fulfilled v | _ \<Rightarrow> p)"

definition reject :: "error \<Rightarrow> 'a promise \<Rightarrow> 'a promise" where
  "reject e p = (case p of Pending \<Rightarrow> Rejected e | _ \<Rightarrow> p)"

text \<open>
  What can happen to the request once it is sent: the one-second timer fires, the
  response arrives with its status code (undefined when it has none), the response
  delivers a chunk of its body or ends, the request fails with an error.
\<close>

datatype event =
    TimerFired
  | Response "int option"
  | Data string
  | End
  | RequestFailed string

text \<open>
  The state the callbacks share: whether the timer is armed, whether the request was
  destroyed, the response's \<open>statusCode\<close> and \<open>rawData\<close> once the response callback ran,
  and the promise the executor settles.
\<close>

record exchange =
  timeoutId :: bool
  destroyed :: bool
  res :: "(int option \<times> string) option"
  metadata_promise :: "json promise"

definition request_sent :: exchange where
  "request_sent = \<lparr>timeoutId = True, destroyed = False, res = None, metadata_promise = Pending\<rparr>"

text \<open>\<open>statusCode && statusCode >= 200 && statusCode < 300\<close>\<close>

definition status_ok :: "int option \<Rightarrow> bool" where
  "status_ok statusCode =
     (case statusCode of None \<Rightarrow> False | Some n \<Rightarrow> n \<noteq> 0 \<and> n \<ge> 200 \<and> n < 300)"

text \<open>
  The callbacks of the executor, one per event. A timer that was cleared does not fire;
  \<open>data\<close> and \<open>end\<close> listeners exist once the response callback has registered them.
\<close>

fun handle :: "(string \<Rightarrow> error + json) \<Rightarrow> exchange \<Rightarrow> event \<Rightarrow> exchange" where
  "handle JSON_parse x TimerFired =
     (if timeoutId x
      then x\<lparr>timeoutId := False, destroyed := True,
             metadata_promise := reject TimeoutError (metadata_promise x)\<rparr>
      else x)"
| "handle JSON_parse x (Response statusCode) =
     x\<lparr>timeoutId := False, res := Some (statusCode, [])\<rparr>"
| "handle JSON_parse x (Data chunk) =
     (case res x of
        None \<Rightarrow> x
      | Some (statusCode, rawData) \<Rightarrow> x\<lparr>res := Some (statusCode, rawData @ chunk)\<rparr>)"
| "handle JSON_parse x End =
     (case res x of
        None \<Rightarrow> x
      | Some (statusCode, rawData) \<Rightarrow>
          if status_ok statusCode
          then (case JSON_parse rawData of
                  Inr parsed \<Rightarrow> x\<lparr>metadata_promise := resolve parsed (metadata_promise x)\<rparr>
                | Inl error \<Rightarrow> x\<lparr>metadata_promise := reject error (metadata_promise x)\<rparr>)
          else x\<lparr>metadata_promise := reject (StatusCodeError statusCode) (metadata_promise x)\<rparr>)"
| "handle JSON_parse x (RequestFailed err) =
     x\<lparr>timeoutId := False, metadata_promise := reject (RequestError err) (metadata_promise x)\<rparr>"

text \<open>
  The \<open>catch\<close> block: it logs \<open>err.message\<close> at debug level and returns the empty
  object.
\<close>

definition catch_block :: "error \<Rightarrow> error + DetectedResourceAttributes" where
  "catch_block err = Inr Map.empty"

text \<open>
  \<open>getAzureVmMetadata()\<close> after the events so far: pending while the awaited promise is;
  otherwise the \<open>try\<close> block runs on (or throws what the promise was rejected with), the
  \<open>catch\<close> block takes over what it throws, and the function's own promise is fulfilled
  with what is returned, or rejected with what is thrown and not caught.
\<close>

definition getAzureVmMetadata ::
  "constants \<Rightarrow> (string \<Rightarrow> error + json) \<Rightarrow> event list \<Rightarrow> DetectedResourceAttributes promise" where
  "getAzureVmMetadata C JSON_parse events =
     (let awaited = metadata_promise (foldl (handle JSON_parse) request_sent events);
          try_block = (case awaited of
                         Pending \<Rightarrow> None
                       | Rejected err \<Rightarrow> Some (Inl err)
                       | Fulfilled metadata \<Rightarrow> Some (attributes_of C metadata))
      in case try_block of
           None \<Rightarrow> Pending
         | Some completion \<Rightarrow>
             (case (case completion of Inl err \<Rightarrow> catch_block err | Inr attributes \<Rightarrow> Inr attributes) of
                Inl err \<Rightarrow> Rejected err
              | Inr attributes \<Rightarrow> Fulfilled attributes))"

definition azure_constants :: constants where
  "azure_constants =
     \<lparr>AZURE_VM_SCALE_SET_NAME_ATTRIBUTE = ''azure.vm.scaleset.name'',
      AZURE_VM_SKU_ATTRIBUTE = ''azure.vm.sku'',
      SEMRESATTRS_CLOUD_PLATFORM = ''cloud.platform'',
      SEMRESATTRS_CLOUD_PROVIDER = ''cloud.provider'',
      SEMRESATTRS_CLOUD_REGION = ''cloud.region'',
      CLOUD_RESOURCE_ID_RESOURCE_ATTRIBUTE = ''cloud.resource_id'',
      SEMRESATTRS_HOST_ID = ''host.id'',
      SEMRESATTRS_HOST_NAME = ''host.name'',
      SEMRESATTRS_HOST_TYPE = ''host.type'',
      SEMRESATTRS_OS_VERSION = ''os.version'',
      CLOUDPLATFORMVALUES_AZURE_VM = ''azure_vm'',
      CLOUDPROVIDERVALUES_AZURE = ''azure''\<rparr>"

text \<open>A parser for the examples: it knows three bodies and takes any other as malformed.\<close>

definition example_parse :: "string \<Rightarrow> error + json" where
  "example_parse body =
     (if body = ''null'' then Inr JNull
      else if body = ''{\"name\":\"vm1\"}'' then Inr (JObject [(''name'', JString ''vm1'')])
      else if body = ''7'' then Inr (JNumber 7)
      else Inl SyntaxError)"

section \<open>The Dispatcher\<close>

text \<open>
  Modelled from the spec: the NormalizedRequest of its data model (section 3), as the
  Request Normalizer builds it. The file that declares it (\<open>../types\<close>) is not among
  the sources.
\<close>

record NormalizedRequest =
  serviceIdentifier :: string
  operationName :: string
  commandInput :: object
  region :: "string option"

text \<open>
  Modelled from the spec: the Request Normalizer (section 4.1), which is not among the
  sources. It never throws; raw parameters of the wrong shape (\<open>None\<close>) give an empty
  \<open>commandInput\<close>.
\<close>

definition normalize :: "string \<Rightarrow> string \<Rightarrow> object option \<Rightarrow> string option \<Rightarrow> NormalizedRequest" where
  "normalize service operation rawParams reg =
     \<lparr>serviceIdentifier = service,
      operationName = operation,
      commandInput = (case rawParams of None \<Rightarrow> Map.empty | Some params \<Rightarrow> params),
      region = reg\<rparr>"

text \<open>
  Modelled from the spec: a Service Extension (section 3), by its hooks. A hook is code
  of the extension and may throw (\<open>Inl\<close>); the response hook is optional and sees the
  outcome of the underlying call. The interface file (\<open>./ServiceExtension\<close>) is not among
  the sources.
\<close>

record ('cfg, 'x, 'e, 'r) ServiceExtension =
  preSpanHook :: "NormalizedRequest \<Rightarrow> 'cfg \<Rightarrow> 'x + object RequestMetadata"
  responseHook :: "('e + 'r \<Rightarrow> object RequestMetadata \<Rightarrow> 'x + unit) option"

text \<open>
  Modelled from the spec: the Extension Registry (section 4.2), a mapping from service
  identifiers to extensions with a default for the unregistered ones. It is not among
  the sources.
\<close>

record ('cfg, 'x, 'e, 'r) Registry =
  extensions :: "string \<Rightarrow> ('cfg, 'x, 'e, 'r) ServiceExtension option"
  default_extension :: "('cfg, 'x, 'e, 'r) ServiceExtension"

definition resolve_extension ::
  "('cfg, 'x, 'e, 'r) Registry \<Rightarrow> string \<Rightarrow> ('cfg, 'x, 'e, 'r) ServiceExtension" where
  "resolve_extension registry service =
     (case extensions registry service of
        None \<Rightarrow> default_extension registry
      | Some extension \<Rightarrow> extension)"

text \<open>
  Modelled from the spec: what the Dispatcher does that can be observed from outside
  (sections 4.4 and 6): a debug log entry for a hook that threw, the start of a span with
  its classification, the underlying invocation, the end of the span with the error
  status of the underlying call.
\<close>

datatype ('x, 'e) action =
    Logged 'x
  | SpanStarted "object RequestMetadata"
  | Invoked
  | SpanEnded "'e option"

text \<open>
  Modelled from the spec: the failure boundary of section 4.4 around the pre-span
  hook. A hook that throws is logged and the default RequestMetadata takes the place
  of its result.
\<close>

definition classify ::
  "object RequestMetadata \<Rightarrow> ('cfg, 'x, 'e, 'r) ServiceExtension \<Rightarrow> NormalizedRequest \<Rightarrow> 'cfg \<Rightarrow>
     object RequestMetadata \<times> ('x, 'e) action list" where
  "classify default_metadata extension request config =
     (case preSpanHook extension request config of
        Inr metadata \<Rightarrow> (metadata, [])
      | Inl thrown \<Rightarrow> (default_metadata, [Logged thrown]))"

text \<open>
  Modelled from the spec: the same boundary around the optional response hook.
\<close>

definition respond ::
  "('cfg, 'x, 'e, 'r) ServiceExtension \<Rightarrow> 'e + 'r \<Rightarrow> object RequestMetadata \<Rightarrow> ('x, 'e) action list" where
  "respond extension outcome started =
     (case responseHook extension of
        None \<Rightarrow> []
      | Some hook \<Rightarrow> (case hook outcome started of Inr u \<Rightarrow> [] | Inl thrown \<Rightarrow> [Logged thrown]))"

text \<open>
  Modelled from the spec: \<open>instrumentCall\<close> of the Dispatcher (section 4.4), whose code is
  not among the sources: normalize the request, resolve the extension, run the pre-span
  hook inside the failure boundary, start the span, invoke the underlying operation
  with the span active, run the response hook inside the boundary, end the span with
  the underlying call's error if it has one, and return the underlying call's own
  outcome (\<open>Inl\<close> for the error it throws). The result is the outcome and the actions in
  order.
\<close>

definition instrumentCall ::
  "('cfg, 'x, 'e, 'r) Registry \<Rightarrow> object RequestMetadata \<Rightarrow> 'cfg \<Rightarrow>
   string \<Rightarrow> string \<Rightarrow> object option \<Rightarrow> string option \<Rightarrow> (object RequestMetadata \<Rightarrow> 'e + 'r) \<Rightarrow>
   ('e + 'r) \<times> ('x, 'e) action list" where
  "instrumentCall registry default_metadata config service operation rawParams reg underlyingInvoke =
     (let request = normalize service operation rawParams reg;
          extension = resolve_extension registry service;
          (metadata, logged) = classify default_metadata extension request config;
          outcome = underlyingInvoke metadata;
          logged' = respond extension outcome metadata;
          status = (case outcome of Inl failure \<Rightarrow> Some failure | Inr result \<Rightarrow> None)
      in (outcome, logged @ [SpanStarted metadata, Invoked] @ logged' @ [SpanEnded status]))"

text \<open>
  A registry for the examples: the extension registered for Kinesis throws from both of
  its hooks.
\<close>

definition example_default :: "object RequestMetadata" where
  "example_default = \<lparr>isIncoming = False, spanAttributes = Map.empty, spanKind = CLIENT\<rparr>"

definition example_registry :: "(unit, string, string, string) Registry" where
  "example_registry =
     \<lparr>extensions =
        [''Kinesis'' \<mapsto>
           \<lparr>preSpanHook = (\<lambda>request config. Inl ''hook failed''),
            responseHook = Some (\<lambda>outcome started. Inl ''response hook failed'')\<rparr>],
      default_extension =
        \<lparr>preSpanHook = (\<lambda>request config. Inr example_default), responseHook = None\<rparr>\<rparr>"

section \<open>Properties of the Kinesis hook\<close>

lemma requestPreSpanHook_returned:
  "returned (requestPreSpanHook A h request config) =
     Inr \<lparr>isIncoming = False,
          spanAttributes =
            (case StreamName_field h request of
               None \<Rightarrow> Map.empty
             | Some v \<Rightarrow> if ToBoolean v then [AWS_KINESIS_STREAM_NAME A \<mapsto> v] else Map.empty),
          spanKind = CLIENT\<rparr>"
  by (auto simp: requestPreSpanHook_def returned_def StreamName_field_def and_then_def
      member_def optional_member_def alloc_def put_def Let_def
      split: option.splits jsval.splits)

text \<open>
  A plain read \<open>commandInput.StreamName\<close> would throw where \<open>commandInput\<close> is
  undefined; the optional chain of the hook does not.
\<close>

lemma member_undefined_throws:
  "member h Undefined ''StreamName'' = Inl TypeError \<and>
   optional_member h Undefined ''StreamName'' = Inr Undefined"
  by (simp add: member_def optional_member_def)

lemma optional_member_returns: "\<exists>v. optional_member h x k = Inr v"
  by (cases x) (simp_all add: optional_member_def member_def)

text \<open>
  The run of the hook, step by step: both reads return, the attribute object is
  allocated at the first free address, and the only write goes to that address.
\<close>

lemma requestPreSpanHook_runs:
  "\<exists>h' md. requestPreSpanHook A h request config = Inr (h', md) \<and>
      spanAttributes md = fresh h \<and> fresh h' = Suc (fresh h) \<and>
      (\<forall>a. a \<noteq> fresh h \<longrightarrow> cells h' a = cells h a)"
proof -
  obtain commandInput where c: "member h (Ref request) ''commandInput'' = Inr commandInput"
    by (simp add: member_def)
  obtain streamName where s: "optional_member h commandInput ''StreamName'' = Inr streamName"
    using optional_member_returns by blast
  show ?thesis
    by (simp add: requestPreSpanHook_def c s and_then_def alloc_def put_def)
qed

lemma example_StreamName_field:
  "StreamName_field example_heap 0 = Some (Str ''orders-stream'')"
  by (simp add: StreamName_field_def example_heap_def)

lemma example_StreamName_field_absent:
  "StreamName_field example_heap 3 = None"
  by (simp add: StreamName_field_def example_heap_def)

text \<open>
  The test the hook makes is JavaScript's truthiness: any truthy \<open>StreamName\<close> is
  recorded as it is, any falsy one is left out. For a string, truthy is non-empty.
\<close>

lemma kinesis_truthy_value_recorded:
  "StreamName_field h request = Some v \<Longrightarrow>
   map_sum id spanAttributes (returned (requestPreSpanHook A h request config)) =
     (if ToBoolean v then Inr [AWS_KINESIS_STREAM_NAME A \<mapsto> v] else Inr Map.empty)"
  by (simp add: requestPreSpanHook_returned)

text \<open>
  C1. When the request's \<open>commandInput\<close> holds a non-empty \<open>StreamName\<close>, the hook
  returns the metadata whose attributes are exactly the one entry from the stream-name
  key to that name, whose span kind is CLIENT and whose \<open>isIncoming\<close> is false.
\<close>

theorem kinesis_stream_name_recorded:
  assumes "StreamName_field h request = Some (Str name)"
    and "name \<noteq> []"
  shows "returned (requestPreSpanHook A h request config) =
     Inr \<lparr>isIncoming = False,
          spanAttributes = [AWS_KINESIS_STREAM_NAME A \<mapsto> Str name],
          spanKind = CLIENT\<rparr>"
  using assms by (simp add: requestPreSpanHook_returned)

theorem kinesis_stream_name_recorded_witness:
  "StreamName_field example_heap 0 = Some (Str ''orders-stream'') \<and>
   ''orders-stream'' \<noteq> [] \<and>
   returned (requestPreSpanHook example_names example_heap 0 2) =
     Inr \<lparr>isIncoming = False,
          spanAttributes = [''aws.kinesis.stream.name'' \<mapsto> Str ''orders-stream''],
          spanKind = CLIENT\<rparr>"
proof -
  have nonempty: "''orders-stream'' \<noteq> []" by simp
  from kinesis_stream_name_recorded [OF example_StreamName_field nonempty, of example_names 2]
  show ?thesis
    by (simp add: example_StreamName_field example_names_def)
qed

text \<open>
  C2. When the \<open>StreamName\<close> field is absent (no \<open>commandInput\<close> object, or no such
  entry in it) or empty (undefined, null or the empty string), the returned attributes
  have no entry at all, with span kind CLIENT and \<open>isIncoming\<close> false. For every
  request, an attribute that is present sits under the stream-name key and carries the
  value of a \<open>StreamName\<close> field that is present and is neither the empty string nor
  null nor undefined.
\<close>

theorem kinesis_stream_name_omitted:
  "(StreamName_field h request \<in> {None, Some Undefined, Some Null, Some (Str [])} \<longrightarrow>
      returned (requestPreSpanHook A h request config) =
        Inr \<lparr>isIncoming = False, spanAttributes = Map.empty, spanKind = CLIENT\<rparr>) \<and>
   (\<exists>md. returned (requestPreSpanHook A h request config) = Inr md \<and>
      spanKind md = CLIENT \<and> isIncoming md = False \<and>
      (\<forall>k v. spanAttributes md k = Some v \<longrightarrow>
         k = AWS_KINESIS_STREAM_NAME A \<and> StreamName_field h request = Some v \<and>
         v \<noteq> Str [] \<and> v \<noteq> Null \<and> v \<noteq> Undefined))"
proof (intro conjI impI)
  assume "StreamName_field h request \<in> {None, Some Undefined, Some Null, Some (Str [])}"
  then show "returned (requestPreSpanHook A h request config) =
      Inr \<lparr>isIncoming = False, spanAttributes = Map.empty, spanKind = CLIENT\<rparr>"
    by (auto simp: requestPreSpanHook_returned)
next
  show "\<exists>md. returned (requestPreSpanHook A h request config) = Inr md \<and>
      spanKind md = CLIENT \<and> isIncoming md = False \<and>
      (\<forall>k v. spanAttributes md k = Some v \<longrightarrow>
         k = AWS_KINESIS_STREAM_NAME A \<and> StreamName_field h request = Some v \<and>
         v \<noteq> Str [] \<and> v \<noteq> Null \<and> v \<noteq> Undefined)"
    by (cases "StreamName_field h request")
      (auto simp: requestPreSpanHook_returned split: if_splits)
qed

theorem kinesis_stream_name_omitted_witness:
  "StreamName_field example_heap 3 \<in> {None, Some Undefined, Some Null, Some (Str [])} \<and>
   returned (requestPreSpanHook example_names example_heap 3 2) =
     Inr \<lparr>isIncoming = False, spanAttributes = Map.empty, spanKind = CLIENT\<rparr>"
proof -
  have absent: "StreamName_field example_heap 3 \<in> {None, Some Undefined, Some Null, Some (Str [])}"
    by (simp add: example_StreamName_field_absent)
  from kinesis_stream_name_omitted [of example_heap 3 example_names 2] absent
  show ?thesis by blast
qed

text \<open>
  C3. Two invocations on the same request give the same metadata. The two stores may
  differ anywhere outside the request: the request object (at \<open>r1\<close> in one store, at
  \<open>r2\<close> in the other) has the same properties in both, and so has the \<open>commandInput\<close>
  object it refers to; the configurations may be any. The returned \<open>isIncoming\<close>,
  \<open>spanKind\<close> and attribute mapping are then equal.
\<close>

theorem kinesis_hook_deterministic:
  assumes "cells h1 r1 = cells h2 r2"
    and "\<forall>input. cells h1 r1 ''commandInput'' = Some (Ref input) \<longrightarrow> cells h1 input = cells h2 input"
  shows "returned (requestPreSpanHook A h1 r1 c1) = returned (requestPreSpanHook A h2 r2 c2)"
proof -
  have "StreamName_field h1 r1 = StreamName_field h2 r2"
    using assms by (auto simp: StreamName_field_def split: option.splits jsval.splits)
  then show ?thesis
    by (simp add: requestPreSpanHook_returned)
qed

theorem kinesis_hook_deterministic_witness:
  "cells example_heap 0 = cells example_heap_later 0 \<and>
   cells example_heap 1 = cells example_heap_later 1 \<and>
   example_heap \<noteq> example_heap_later \<and>
   returned (requestPreSpanHook example_names example_heap 0 2) =
     returned (requestPreSpanHook example_names example_heap_later 0 2)"
proof -
  have request: "cells example_heap 0 = cells example_heap_later 0"
    by (simp add: example_heap_later_def)
  have input: "\<forall>input. cells example_heap 0 ''commandInput'' = Some (Ref input) \<longrightarrow>
      cells example_heap input = cells example_heap_later input"
    by (simp add: example_heap_later_def example_heap_def)
  have input1: "cells example_heap 1 = cells example_heap_later 1"
    by (simp add: example_heap_later_def)
  have differ: "fresh example_heap \<noteq> fresh example_heap_later"
    by (simp add: example_heap_later_def example_heap_def)
  then have "example_heap \<noteq> example_heap_later"
    by auto
  with request input1
    kinesis_hook_deterministic [OF request input, of example_names 2 2]
  show ?thesis by simp
qed

text \<open>
  C4, as the code has it. The Kinesis hook selects the span kind CLIENT for every
  request, writes and reads alike: it never selects PRODUCER or CONSUMER.
\<close>

theorem kinesis_span_kind_always_client:
  "map_sum id spanKind (returned (requestPreSpanHook A h request config)) = Inr CLIENT"
  by (simp add: requestPreSpanHook_returned)

theorem kinesis_span_kind_always_client_witness:
  "map_sum id spanKind (returned (requestPreSpanHook example_names example_heap 3 2)) = Inr CLIENT \<and>
   cells example_heap 3 ''operationName'' = Some (Str ''GetRecords'')"
  using kinesis_span_kind_always_client [of example_names example_heap 3 2]
  by (simp add: example_heap_def)

text \<open>
  The \<open>PutRecord\<close> request of the example store is a stream write; its span kind is
  CLIENT, not PRODUCER.
\<close>

theorem kinesis_write_not_producer:
  "map_sum id spanKind (returned (requestPreSpanHook example_names example_heap 0 2)) = Inr CLIENT \<and>
   cells example_heap 0 ''operationName'' = Some (Str ''PutRecord'') \<and>
   CLIENT \<noteq> PRODUCER"
  by (simp add: requestPreSpanHook_returned example_heap_def)

text \<open>
  C5. The hook returns for every request and never throws: the result is a metadata
  record whose attribute object is a live object of the resulting store. A request
  whose \<open>commandInput\<close> is missing, undefined or null, or has no \<open>StreamName\<close>, gets the
  empty attribute object.
\<close>

theorem kinesis_hook_total:
  "\<exists>h' md. requestPreSpanHook A h request config = Inr (h', md) \<and>
      spanAttributes md < fresh h' \<and>
      ((cells h request ''commandInput'' \<in> {None, Some Undefined, Some Null} \<or>
        StreamName_field h request = None) \<longrightarrow>
       cells h' (spanAttributes md) = Map.empty)"
proof -
  obtain h' md where run: "requestPreSpanHook A h request config = Inr (h', md)"
    and live: "spanAttributes md < fresh h'"
    using requestPreSpanHook_runs [of A h request config] by (metis lessI)
  have empty: "cells h' (spanAttributes md) = Map.empty"
    if "cells h request ''commandInput'' \<in> {None, Some Undefined, Some Null} \<or>
        StreamName_field h request = None"
  proof -
    from that have "StreamName_field h request = None"
      by (auto simp: StreamName_field_def)
    with requestPreSpanHook_returned [of A h request config] run show ?thesis
      by (simp add: returned_def)
  qed
  show ?thesis
  proof (intro exI conjI impI)
    show "requestPreSpanHook A h request config = Inr (h', md)" by (rule run)
    show "spanAttributes md < fresh h'" by (rule live)
  qed (rule empty)
qed

theorem kinesis_hook_total_witness:
  "cells example_heap 3 ''commandInput'' = Some Undefined \<and>
   (\<exists>h' md. requestPreSpanHook example_names example_heap 3 2 = Inr (h', md) \<and>
      spanAttributes md < fresh h' \<and> cells h' (spanAttributes md) = Map.empty)"
proof -
  have undefined: "cells example_heap 3 ''commandInput'' = Some Undefined"
    by (simp add: example_heap_def)
  with kinesis_hook_total [of example_names example_heap 3 2]
  show ?thesis by auto
qed

text \<open>
  C6. The hook writes to no object that existed before the call: every object of the
  store, the request, its \<open>commandInput\<close> mapping and the configuration among them, has
  the properties it had. The attribute object the hook fills is a new one.
\<close>

theorem kinesis_hook_frame:
  "\<exists>h' md. requestPreSpanHook A h request config = Inr (h', md) \<and>
      (\<forall>a. a < fresh h \<longrightarrow> cells h' a = cells h a) \<and>
      fresh h \<le> fresh h' \<and> fresh h \<le> spanAttributes md"
  using requestPreSpanHook_runs [of A h request config] by auto

theorem kinesis_hook_frame_witness:
  "\<exists>h' md. requestPreSpanHook example_names example_heap 0 2 = Inr (h', md) \<and>
      cells h' 0 = cells example_heap 0 \<and>
      cells h' 1 = cells example_heap 1 \<and>
      cells h' 2 = cells example_heap 2 \<and>
      4 \<le> spanAttributes md"
proof -
  have live: "fresh example_heap = 4"
    by (simp add: example_heap_def)
  from kinesis_hook_frame [of example_names example_heap 0 2]
  obtain h' md where run: "requestPreSpanHook example_names example_heap 0 2 = Inr (h', md)"
    and same: "\<forall>a. a < fresh example_heap \<longrightarrow> cells h' a = cells example_heap a"
    and new: "fresh example_heap \<le> spanAttributes md"
    by blast
  from same live have "cells h' 0 = cells example_heap 0" "cells h' 1 = cells example_heap 1"
    "cells h' 2 = cells example_heap 2"
    by simp_all
  with run new live show ?thesis by auto
qed

section \<open>Properties of the random bytes\<close>

lemma elements_bound: "length (elements arr) \<le> 4294967295"
  by transfer auto

lemma elements_array_of: "elements (array_of es) = take 4294967295 es"
  by transfer simp

lemma module_loaded_example:
  "module_loaded 16 ([0, 1/2, 15/16, 5/8] @- sconst 0) = Inr example_world"
  by (simp add: module_loaded_def Array_def example_world_def)

lemma elements_assign_index:
  "i < 4294967295 \<Longrightarrow> i \<le> length (elements arr) \<Longrightarrow>
   take (Suc i) (elements (assign arr i v)) = take i (elements arr) @ [Some v] \<and>
   Suc i \<le> length (elements (assign arr i v))"
  by transfer (auto simp: take_Suc_conv_app_nth split: prod.splits)

lemma elements_assign_property:
  "\<not> i < 4294967295 \<Longrightarrow> elements (assign arr i v) = elements arr"
  by transfer (auto split: prod.splits)

lemma element_assign: "element (assign arr i v) i = Some v"
  unfolding element_def by transfer (auto simp: nth_append split: prod.splits)

lemma assign_assign: "assign (assign arr i v) i v' = assign arr i v'"
  by transfer (auto simp: list_update_append split: prod.splits)

lemma loop_body_eq:
  "loop_body i w =
     \<lparr>SHARED_CHAR_CODES_ARRAY = assign (SHARED_CHAR_CODES_ARRAY w) i (hex_code (shd (Math_random w))),
      Math_random = stl (Math_random w)\<rparr>"
  by (simp add: loop_body_def element_assign assign_assign hex_code_def Let_def)

text \<open>
  The loop overwrites the elements from \<open>i\<close> up to the count or to the bound of arrays,
  whichever is less, with the codes of the draws; from the bound on it sets properties
  and leaves the elements alone.
\<close>

lemma loop_prefix:
  "min i 4294967295 \<le> length (elements (SHARED_CHAR_CODES_ARRAY w)) \<Longrightarrow> int i \<le> bytes * 2 \<Longrightarrow>
   take (min (nat (bytes * 2)) 4294967295)
       (elements (SHARED_CHAR_CODES_ARRAY (generateRandomBytes_loop bytes i w))) =
     take (min i (min (nat (bytes * 2)) 4294967295)) (elements (SHARED_CHAR_CODES_ARRAY w)) @
     map (\<lambda>r. Some (hex_code r)) (stake (min (nat (bytes * 2)) 4294967295 - i) (Math_random w))"
proof (induction bytes i w rule: generateRandomBytes_loop.induct)
  case (1 bytes i w)
  let ?K = "min (nat (bytes * 2)) 4294967295"
  let ?E = "\<lambda>w. elements (SHARED_CHAR_CODES_ARRAY w)"
  show ?case
  proof (cases "int i < bytes * 2")
    case True
    let ?w = "loop_body i w"
    have le: "int (Suc i) \<le> bytes * 2"
      using True by simp
    have unfold: "take ?K (?E (generateRandomBytes_loop bytes i w)) =
        take ?K (?E (generateRandomBytes_loop bytes (Suc i) ?w))"
      using True by (subst generateRandomBytes_loop.simps) simp
    show ?thesis
    proof (cases "i < 4294967295")
      case index: True
      with "1.prems"(1) have len: "i \<le> length (?E w)"
        by simp
      from elements_assign_index [OF index len]
      have step: "take (Suc i) (?E ?w) = take i (?E w) @ [Some (hex_code (shd (Math_random w)))]"
        and grown: "Suc i \<le> length (?E ?w)"
        by (simp_all add: loop_body_eq)
      from grown have pre: "min (Suc i) 4294967295 \<le> length (?E ?w)"
        by simp
      have rnd: "Math_random ?w = stl (Math_random w)"
        by (simp add: loop_body_eq)
      from index True have below: "i < ?K"
        by simp
      then have n: "?K - i = Suc (?K - Suc i)" and m: "min (Suc i) ?K = Suc i" and m': "min i ?K = i"
        by linarith+
      have "take ?K (?E (generateRandomBytes_loop bytes (Suc i) ?w)) =
          take (Suc i) (?E ?w) @
          map (\<lambda>r. Some (hex_code r)) (stake (?K - Suc i) (Math_random ?w))"
        using "1.IH" [OF True pre le] by (simp only: m)
      also have "\<dots> = take i (?E w) @
          map (\<lambda>r. Some (hex_code r)) (stake (?K - i) (Math_random w))"
        using rnd by (simp add: step n)
      finally show ?thesis
        by (simp only: unfold m')
    next
      case property: False
      then have same: "?E ?w = ?E w"
        by (simp add: loop_body_eq elements_assign_property)
      from property True have K: "?K = 4294967295"
        by linarith
      from property "1.prems"(1) same have pre: "min (Suc i) 4294967295 \<le> length (?E ?w)"
        by simp
      from property K have z: "?K - i = 0" "?K - Suc i = 0" "min (Suc i) ?K = ?K" "min i ?K = ?K"
        by linarith+
      have "take ?K (?E (generateRandomBytes_loop bytes (Suc i) ?w)) =
          take (min (Suc i) ?K) (?E ?w) @
          map (\<lambda>r. Some (hex_code r)) (stake (?K - Suc i) (Math_random ?w))"
        using "1.IH" [OF True pre le] .
      also have "\<dots> = take (min i ?K) (?E w) @
          map (\<lambda>r. Some (hex_code r)) (stake (?K - i) (Math_random w))"
        by (simp only: z same) simp
      finally show ?thesis
        by (simp only: unfold)
    qed
  next
    case False
    with "1.prems" have "nat (bytes * 2) = i" by linarith
    then have "min i ?K = ?K" "?K - i = 0"
      by linarith+
    with False show ?thesis
      by (subst generateRandomBytes_loop.simps) simp
  qed
qed

lemma loop_random:
  "int i \<le> bytes * 2 \<Longrightarrow>
   Math_random (generateRandomBytes_loop bytes i w) = sdrop (nat (bytes * 2) - i) (Math_random w)"
proof (induction bytes i w rule: generateRandomBytes_loop.induct)
  case (1 bytes i w)
  show ?case
  proof (cases "int i < bytes * 2")
    case True
    have n: "nat (bytes * 2) - i = Suc (nat (bytes * 2) - Suc i)"
      using True by linarith
    have le: "int (Suc i) \<le> bytes * 2"
      using True by simp
    from "1.IH" [OF True le] True show ?thesis
      by (subst generateRandomBytes_loop.simps) (simp add: n loop_body_eq)
  next
    case False
    with "1.prems" have "nat (bytes * 2) = i" by linarith
    with False show ?thesis
      by (subst generateRandomBytes_loop.simps) simp
  qed
qed

text \<open>
  What a call returns for a non-negative count: \<open>apply\<close> is handed the codes of the
  first \<open>2 * bytes\<close> draws, or of the first \<open>2^32 - 1\<close> of them when the count is larger.
\<close>

lemma generateRandomBytes_string:
  assumes "0 \<le> bytes"
  shows "fst (generateRandomBytes max_arguments bytes w) =
     fromCharCode_apply max_arguments
       (map (\<lambda>r. Some (hex_code r)) (stake (min (nat (bytes * 2)) 4294967295) (Math_random w)))"
proof -
  let ?K = "min (nat (bytes * 2)) 4294967295"
  let ?es = "elements (SHARED_CHAR_CODES_ARRAY (generateRandomBytes_loop bytes 0 w))"
  have prefix: "take ?K ?es = map (\<lambda>r. Some (hex_code r)) (stake ?K (Math_random w))"
    using loop_prefix [of 0 w bytes] assms by simp
  then have "length (take ?K ?es) = ?K"
    by simp
  then have "?K \<le> length ?es"
    by simp
  moreover have "length ?es \<le> 4294967295"
    by (rule elements_bound)
  ultimately have "nat (min (bytes * 2) (int (length ?es))) = ?K"
    using assms by linarith
  then have "slice ?es 0 (bytes * 2) = take ?K ?es"
    using assms by (simp add: slice_def Let_def)
  with prefix show ?thesis
    by (simp add: generateRandomBytes_def Let_def)
qed

lemma hex_code_range:
  assumes "0 \<le> r" and "r < 1"
  shows "(48 \<le> hex_code r \<and> hex_code r \<le> 57) \<or> (97 \<le> hex_code r \<and> hex_code r \<le> 102)"
proof -
  have "0 \<le> \<lfloor>r * 16\<rfloor>"
    using assms(1) by simp
  moreover have "\<lfloor>r * 16\<rfloor> < 16"
    using assms(2) by (simp add: floor_less_iff)
  ultimately show ?thesis
    by (auto simp: hex_code_def Let_def)
qed

lemma unat_code_unit:
  "0 \<le> n \<Longrightarrow> n < 65536 \<Longrightarrow> unat (word_of_int n :: 16 word) = nat n"
  by (simp add: unat_eq_nat_uint uint_word_of_int)

lemma hex_code_digit:
  assumes "0 \<le> r" and "r < 1"
  shows "lowercase_hex_digit (word_of_int (hex_code r))"
proof -
  from hex_code_range [OF assms] have "0 \<le> hex_code r" "hex_code r < 65536"
    by auto
  then have "unat (word_of_int (hex_code r) :: 16 word) = nat (hex_code r)"
    by (rule unat_code_unit)
  with hex_code_range [OF assms] show ?thesis
    by (auto simp: lowercase_hex_digit_def)
qed

lemma set_stake_sset: "set (stake n s) \<subseteq> sset s"
proof (induction n arbitrary: s)
  case 0
  show ?case by simp
next
  case (Suc n)
  from Suc [of "stl s"] show ?case
    by (auto simp: shd_sset dest: stl_sset)
qed

lemma example_world_draws:
  "stake 4 (Math_random example_world) = [0, 1/2, 15/16, 5/8]"
  "stake 4 (Math_random example_world_used) = [0, 1/2, 15/16, 5/8]"
  by (simp_all add: example_world_def example_world_used_def eval_nat_numeral)

text \<open>
  C7. The string a call returns is a function of the draws made during the call alone:
  two calls with the same non-negative count whose first \<open>2 * bytes\<close> draws agree
  return the same string, whatever the shared array held before each of them, and a
  call consumes exactly \<open>2 * bytes\<close> draws.
\<close>

theorem generateRandomBytes_stateless:
  assumes "0 \<le> bytes"
    and "stake (nat (bytes * 2)) (Math_random w1) = stake (nat (bytes * 2)) (Math_random w2)"
  shows "fst (generateRandomBytes max_arguments bytes w1) =
       fst (generateRandomBytes max_arguments bytes w2) \<and>
     Math_random (snd (generateRandomBytes max_arguments bytes w1)) =
       sdrop (nat (bytes * 2)) (Math_random w1)"
proof
  let ?K = "min (nat (bytes * 2)) 4294967295"
  have "take ?K (stake (nat (bytes * 2)) (Math_random w1)) =
      take ?K (stake (nat (bytes * 2)) (Math_random w2))"
    using assms(2) by simp
  then have "stake ?K (Math_random w1) = stake ?K (Math_random w2)"
    by (simp add: take_stake min.commute min.left_commute)
  then show "fst (generateRandomBytes max_arguments bytes w1) =
      fst (generateRandomBytes max_arguments bytes w2)"
    using assms(1) by (simp only: generateRandomBytes_string)
  show "Math_random (snd (generateRandomBytes max_arguments bytes w1)) =
      sdrop (nat (bytes * 2)) (Math_random w1)"
    using assms(1) loop_random [of 0 bytes w1] by (simp add: generateRandomBytes_def Let_def)
qed

theorem generateRandomBytes_stateless_witness:
  "(0::int) \<le> 2 \<and>
   stake (nat (2 * 2)) (Math_random example_world) = stake (nat (2 * 2)) (Math_random example_world_used) \<and>
   elements (SHARED_CHAR_CODES_ARRAY example_world) \<noteq>
     elements (SHARED_CHAR_CODES_ARRAY example_world_used) \<and>
   fst (generateRandomBytes example_max_arguments 2 example_world) =
     fst (generateRandomBytes example_max_arguments 2 example_world_used)"
proof -
  have count: "(0::int) \<le> 2" by simp
  have draws: "stake (nat (2 * 2)) (Math_random example_world) =
      stake (nat (2 * 2)) (Math_random example_world_used)"
    by (simp add: example_world_draws)
  have arrays: "elements (SHARED_CHAR_CODES_ARRAY example_world) \<noteq>
      elements (SHARED_CHAR_CODES_ARRAY example_world_used)"
    by (simp add: example_world_def example_world_used_def elements_array_of)
  from generateRandomBytes_stateless [OF count draws, of example_max_arguments] draws arrays
  show ?thesis
    by simp
qed

text \<open>
  C9, as the code has it. For a non-negative count whose \<open>2 * bytes\<close> stays within
  the engine's argument limit and within the bound of arrays, and for draws in
  \<open>[0, 1)\<close>, the call returns a string of \<open>2 * bytes\<close> code units, each a lowercase
  hexadecimal digit: 48 to 57 or 97 to 102.
\<close>

theorem generateRandomBytes_hex:
  assumes "0 \<le> bytes"
    and "nat (bytes * 2) \<le> max_arguments"
    and "bytes * 2 \<le> 4294967295"
    and "\<forall>r \<in> sset (Math_random w). 0 \<le> r \<and> r < 1"
  shows "\<exists>string. fst (generateRandomBytes max_arguments bytes w) = Inr string \<and>
     length string = nat (bytes * 2) \<and>
     (\<forall>c \<in> set string. lowercase_hex_digit c)"
proof -
  let ?n = "nat (bytes * 2)"
  let ?string = "map (\<lambda>r. word_of_int (hex_code r) :: 16 word) (stake ?n (Math_random w))"
  from assms(3) have K: "min ?n 4294967295 = ?n"
    by linarith
  have run: "fst (generateRandomBytes max_arguments bytes w) = Inr ?string"
    using assms(2)
    by (simp add: generateRandomBytes_string [OF assms(1)] K fromCharCode_apply_def comp_def)
  have "lowercase_hex_digit (word_of_int (hex_code r))"
    if "r \<in> set (stake ?n (Math_random w))" for r
  proof -
    from that set_stake_sset [of ?n "Math_random w"]
    have "r \<in> sset (Math_random w)" by (rule subsetD [rotated])
    with assms(4) have "0 \<le> r" "r < 1" by auto
    then show ?thesis by (rule hex_code_digit)
  qed
  then have digits: "\<forall>c \<in> set ?string. lowercase_hex_digit c"
    by auto
  have "length ?string = ?n"
    by simp
  with run digits show ?thesis
    by blast
qed

theorem generateRandomBytes_hex_witness:
  "(0::int) \<le> 2 \<and>
   nat (2 * 2) \<le> example_max_arguments \<and>
   (2::int) * 2 \<le> 4294967295 \<and>
   sset (Math_random example_world) = {0, 1/2, 15/16, 5/8} \<and>
   fst (generateRandomBytes example_max_arguments 2 example_world) = Inr [48, 56, 102, 97] \<and>
   lowercase_hex_digit 48 \<and> lowercase_hex_digit 56 \<and> lowercase_hex_digit 102 \<and>
   lowercase_hex_digit 97"
proof -
  have count: "(0::int) \<le> 2" by simp
  have limit: "nat (2 * 2) \<le> example_max_arguments"
    by (simp add: example_max_arguments_def)
  have bound: "(2::int) * 2 \<le> 4294967295" by simp
  have draws: "sset (Math_random example_world) = {0, 1/2, 15/16, 5/8}"
    by (auto simp: example_world_def)
  then have unit: "\<forall>r \<in> sset (Math_random example_world). 0 \<le> r \<and> r < 1"
    by simp
  have string: "fst (generateRandomBytes example_max_arguments 2 example_world) = Inr [48, 56, 102, 97]"
    by (simp add: generateRandomBytes_string example_world_draws hex_code_def
        fromCharCode_apply_def example_max_arguments_def)
  from generateRandomBytes_hex [OF count limit bound unit] count limit draws string
  show ?thesis
    by simp
qed

text \<open>
  Where the claim fails. A count of \<open>2^31\<close> bytes asks for \<open>2^32\<close> characters, one more
  than an array can hold: whatever the engine's argument limit, the call does not
  return a string of that length. And on an engine that accepts 65536 arguments, a
  count of 100000 bytes makes \<open>apply\<close> throw a RangeError.
\<close>

theorem generateRandomBytes_large_count:
  "(\<forall>max_arguments.
      \<not> (\<exists>string. fst (generateRandomBytes max_arguments 2147483648 example_world) = Inr string \<and>
            length string = nat (2147483648 * 2))) \<and>
   fst (generateRandomBytes example_max_arguments 100000 example_world) = Inl RangeError"
proof (intro conjI allI notI)
  fix max_arguments
  assume "\<exists>string. fst (generateRandomBytes max_arguments 2147483648 example_world) = Inr string \<and>
      length string = nat (2147483648 * 2)"
  then obtain string
    where run: "fst (generateRandomBytes max_arguments 2147483648 example_world) = Inr string"
      and len: "length string = nat (2147483648 * 2)"
    by blast
  have "fst (generateRandomBytes max_arguments 2147483648 example_world) =
      fromCharCode_apply max_arguments
        (map (\<lambda>r. Some (hex_code r)) (stake 4294967295 (Math_random example_world)))"
    by (simp add: generateRandomBytes_string)
  with run have "length string = 4294967295"
    by (auto simp: fromCharCode_apply_def split: if_splits)
  with len show False
    by simp
next
  show "fst (generateRandomBytes example_max_arguments 100000 example_world) = Inl RangeError"
    by (simp add: generateRandomBytes_string fromCharCode_apply_def example_max_arguments_def)
qed

text \<open>
  The count is a number of bytes, so it is not negative; were it negative, the loop
  would not run and \<open>slice\<close> would count its bound from the end of the array, returning
  what earlier calls left there.
\<close>

lemma generateRandomBytes_negative_count:
  "fst (generateRandomBytes example_max_arguments (- 1) example_world_used) = Inr (replicate 30 102)"
  by (simp add: generateRandomBytes_def generateRandomBytes_loop.simps slice_def
      fromCharCode_apply_def example_world_used_def example_max_arguments_def
      elements_array_of Let_def)

section \<open>Properties of the Azure VM resource detector\<close>

lemma resolve_settled [simp]: "p \<noteq> Pending \<Longrightarrow> resolve v p = p"
  by (cases p) (simp_all add: resolve_def)

lemma reject_settled [simp]: "p \<noteq> Pending \<Longrightarrow> reject e p = p"
  by (cases p) (simp_all add: reject_def)

lemma handle_settled:
  "metadata_promise x \<noteq> Pending \<Longrightarrow>
   metadata_promise (handle JSON_parse x ev) = metadata_promise x"
  by (cases ev) (auto split: option.splits sum.splits)

lemma events_settled:
  "metadata_promise x \<noteq> Pending \<Longrightarrow>
   metadata_promise (foldl (handle JSON_parse) x evs) = metadata_promise x"
proof (induction evs arbitrary: x)
  case Nil
  show ?case by simp
next
  case (Cons ev evs)
  from Cons.prems have "metadata_promise (handle JSON_parse x ev) = metadata_promise x"
    by (rule handle_settled)
  with Cons.prems Cons.IH [of "handle JSON_parse x ev"] show ?case
    by simp
qed

text \<open>The body of the response accumulates in \<open>rawData\<close>; nothing else changes.\<close>

lemma data_events:
  "res x = Some (statusCode, rawData) \<Longrightarrow>
   foldl (handle JSON_parse) x (map Data chunks) = x\<lparr>res := Some (statusCode, rawData @ concat chunks)\<rparr>"
proof (induction chunks arbitrary: x rawData)
  case Nil
  then show ?case by simp
next
  case (Cons chunk chunks)
  let ?x = "x\<lparr>res := Some (statusCode, rawData @ chunk)\<rparr>"
  have "res ?x = Some (statusCode, rawData @ chunk)" by simp
  from Cons.IH [OF this] Cons.prems show ?case
    by simp
qed

lemma property_returns: "v \<noteq> JNull \<Longrightarrow> \<exists>r. property v k = Inr r"
  by (cases v) (simp_all add: property_def)

lemma attributes_of_null: "attributes_of C JNull = Inl TypeError"
  by (simp add: attributes_of_def property_def and_then_def)

lemma attributes_of_keys:
  assumes "metadata \<noteq> JNull"
  shows "\<exists>attributes. attributes_of C metadata = Inr attributes \<and> dom attributes = set (attrNames C)"
proof -
  obtain vmScaleSetName sku location resourceId vmId name vmSize version
    where "property metadata ''vmScaleSetName'' = Inr vmScaleSetName"
      and "property metadata ''sku'' = Inr sku"
      and "property metadata ''location'' = Inr location"
      and "property metadata ''resourceId'' = Inr resourceId"
      and "property metadata ''vmId'' = Inr vmId"
      and "property metadata ''name'' = Inr name"
      and "property metadata ''vmSize'' = Inr vmSize"
      and "property metadata ''version'' = Inr version"
    using property_returns [OF assms] by metis
  then have "attributes_of C metadata =
      Inr (Map.empty
         (AZURE_VM_SCALE_SET_NAME_ATTRIBUTE C \<mapsto> vmScaleSetName,
          AZURE_VM_SKU_ATTRIBUTE C \<mapsto> sku,
          SEMRESATTRS_CLOUD_PLATFORM C \<mapsto> Some (JString (CLOUDPLATFORMVALUES_AZURE_VM C)),
          SEMRESATTRS_CLOUD_PROVIDER C \<mapsto> Some (JString (CLOUDPROVIDERVALUES_AZURE C)),
          SEMRESATTRS_CLOUD_REGION C \<mapsto> location,
          CLOUD_RESOURCE_ID_RESOURCE_ATTRIBUTE C \<mapsto> resourceId,
          SEMRESATTRS_HOST_ID C \<mapsto> vmId,
          SEMRESATTRS_HOST_NAME C \<mapsto> name,
          SEMRESATTRS_HOST_TYPE C \<mapsto> vmSize,
          SEMRESATTRS_OS_VERSION C \<mapsto> version))"
    by (simp add: attributes_of_def and_then_def)
  moreover have "dom (Map.empty
         (AZURE_VM_SCALE_SET_NAME_ATTRIBUTE C \<mapsto> vmScaleSetName,
          AZURE_VM_SKU_ATTRIBUTE C \<mapsto> sku,
          SEMRESATTRS_CLOUD_PLATFORM C \<mapsto> Some (JString (CLOUDPLATFORMVALUES_AZURE_VM C)),
          SEMRESATTRS_CLOUD_PROVIDER C \<mapsto> Some (JString (CLOUDPROVIDERVALUES_AZURE C)),
          SEMRESATTRS_CLOUD_REGION C \<mapsto> location,
          CLOUD_RESOURCE_ID_RESOURCE_ATTRIBUTE C \<mapsto> resourceId,
          SEMRESATTRS_HOST_ID C \<mapsto> vmId,
          SEMRESATTRS_HOST_NAME C \<mapsto> name,
          SEMRESATTRS_HOST_TYPE C \<mapsto> vmSize,
          SEMRESATTRS_OS_VERSION C \<mapsto> version)) = set (attrNames C)"
    unfolding attrNames_def dom_fun_upd dom_empty by auto
  ultimately show ?thesis by blast
qed

text \<open>What the function's promise holds, by what the awaited promise holds.\<close>

lemma getAzureVmMetadata_awaited:
  "getAzureVmMetadata C JSON_parse events =
     (case metadata_promise (foldl (handle JSON_parse) request_sent events) of
        Pending \<Rightarrow> Pending
      | Rejected err \<Rightarrow> Fulfilled Map.empty
      | Fulfilled metadata \<Rightarrow>
          (case attributes_of C metadata of
             Inl err \<Rightarrow> Fulfilled Map.empty
           | Inr attributes \<Rightarrow> Fulfilled attributes))"
  by (simp add: getAzureVmMetadata_def catch_block_def Let_def split: promise.splits sum.splits)

lemma timer_while_armed:
  assumes "timeoutId (foldl (handle JSON_parse) request_sent before)"
    and "metadata_promise (foldl (handle JSON_parse) request_sent before) = Pending"
  shows "metadata_promise (foldl (handle JSON_parse) request_sent (before @ TimerFired # events)) =
     Rejected TimeoutError"
proof -
  let ?x = "handle JSON_parse (foldl (handle JSON_parse) request_sent before) TimerFired"
  have "metadata_promise ?x = Rejected TimeoutError"
    using assms by (simp add: reject_def)
  then show ?thesis
    using events_settled [of ?x JSON_parse events] by simp
qed

lemma failure_while_pending:
  assumes "metadata_promise (foldl (handle JSON_parse) request_sent before) = Pending"
  shows "metadata_promise (foldl (handle JSON_parse) request_sent (before @ RequestFailed err # events)) =
     Rejected (RequestError err)"
proof -
  let ?x = "handle JSON_parse (foldl (handle JSON_parse) request_sent before) (RequestFailed err)"
  have "metadata_promise ?x = Rejected (RequestError err)"
    using assms by (simp add: reject_def)
  then show ?thesis
    using events_settled [of ?x JSON_parse events] by simp
qed

lemma response_ended:
  "metadata_promise
     (foldl (handle JSON_parse) request_sent (Response statusCode # map Data chunks @ End # events)) =
     (if status_ok statusCode
      then (case JSON_parse (concat chunks) of
              Inr parsed \<Rightarrow> Fulfilled parsed
            | Inl error \<Rightarrow> Rejected error)
      else Rejected (StatusCodeError statusCode))"
proof -
  let ?x = "request_sent\<lparr>timeoutId := False, res := Some (statusCode, [])\<rparr>"
  let ?y = "?x\<lparr>res := Some (statusCode, concat chunks)\<rparr>"
  have "foldl (handle JSON_parse) ?x (map Data chunks) = ?y"
    using data_events [of ?x statusCode "[]" JSON_parse chunks] by simp
  then have "foldl (handle JSON_parse) request_sent (Response statusCode # map Data chunks @ End # events) =
      foldl (handle JSON_parse) (handle JSON_parse ?y End) events"
    by simp
  moreover have "metadata_promise (handle JSON_parse ?y End) =
     (if status_ok statusCode
      then (case JSON_parse (concat chunks) of
              Inr parsed \<Rightarrow> Fulfilled parsed
            | Inl error \<Rightarrow> Rejected error)
      else Rejected (StatusCodeError statusCode))"
    by (simp add: request_sent_def resolve_def reject_def split: sum.splits)
  moreover from this have "metadata_promise (handle JSON_parse ?y End) \<noteq> Pending"
    by (simp split: sum.splits)
  ultimately show ?thesis
    using events_settled [of "handle JSON_parse ?y End" JSON_parse events] by simp
qed

text \<open>Whenever the function's promise has settled, it is fulfilled, in one of two shapes.\<close>

lemma getAzureVmMetadata_settled:
  "getAzureVmMetadata C JSON_parse events = Pending \<or>
   getAzureVmMetadata C JSON_parse events = Fulfilled Map.empty \<or>
   (\<exists>attributes. getAzureVmMetadata C JSON_parse events = Fulfilled attributes \<and>
      dom attributes = set (attrNames C))"
proof (cases "metadata_promise (foldl (handle JSON_parse) request_sent events)")
  case Pending
  then show ?thesis by (simp add: getAzureVmMetadata_awaited)
next
  case (Rejected err)
  then show ?thesis by (simp add: getAzureVmMetadata_awaited)
next
  case (Fulfilled metadata)
  show ?thesis
  proof (cases "metadata = JNull")
    case True
    with Fulfilled show ?thesis
      by (simp add: getAzureVmMetadata_awaited attributes_of_null)
  next
    case False
    then obtain attributes where "attributes_of C metadata = Inr attributes"
      and "dom attributes = set (attrNames C)"
      using attributes_of_keys by blast
    with Fulfilled show ?thesis
      by (simp add: getAzureVmMetadata_awaited)
  qed
qed

lemma cleared_timer:
  "\<not> timeoutId x \<Longrightarrow> foldl (handle JSON_parse) x (replicate n TimerFired) = x"
  by (induction n) simp_all

text \<open>
  The response callback clears the timer, and no listener is left that would settle the
  promise if the body then neither ends nor fails: the promise stays pending.
\<close>

lemma response_never_ended:
  "getAzureVmMetadata C JSON_parse (Response statusCode # map Data chunks @ replicate n TimerFired) =
     Pending"
proof -
  let ?x = "request_sent\<lparr>timeoutId := False, res := Some (statusCode, [])\<rparr>"
  let ?y = "?x\<lparr>res := Some (statusCode, concat chunks)\<rparr>"
  have data: "foldl (handle JSON_parse) ?x (map Data chunks) = ?y"
    using data_events [of ?x statusCode "[]" JSON_parse chunks] by simp
  have "foldl (handle JSON_parse) request_sent
      (Response statusCode # map Data chunks @ replicate n TimerFired) = ?y"
    by (simp add: data cleared_timer)
  then show ?thesis
    by (simp add: getAzureVmMetadata_awaited request_sent_def)
qed

text \<open>
  C10, as the code has it. The promise of \<open>getAzureVmMetadata\<close> is never rejected,
  whatever happens to the request, and once settled it is fulfilled with the empty
  mapping or with a mapping whose keys are exactly the ten attribute names. It is
  fulfilled with the empty mapping when the timer fires while it is armed and the
  awaited promise pending (no response has arrived), when the request fails while the
  awaited promise is pending (before or during the response), and when the response
  ends with a status code outside 200..299, with a body that \<open>JSON.parse\<close> refuses, or
  with a body that parses to null. When the response ends with a status code in
  200..299 and a body that parses to any other value, it is fulfilled with a mapping
  whose keys are exactly the ten attribute names. Nothing is said of a response that
  arrives and never ends.
\<close>

theorem getAzureVmMetadata_never_rejects:
  "(\<forall>err. getAzureVmMetadata C JSON_parse events \<noteq> Rejected err) \<and>
   (getAzureVmMetadata C JSON_parse events = Pending \<or>
    getAzureVmMetadata C JSON_parse events = Fulfilled Map.empty \<or>
    (\<exists>attributes. getAzureVmMetadata C JSON_parse events = Fulfilled attributes \<and>
       dom attributes = set (attrNames C))) \<and>
   (timeoutId (foldl (handle JSON_parse) request_sent before) \<and>
    metadata_promise (foldl (handle JSON_parse) request_sent before) = Pending \<longrightarrow>
      getAzureVmMetadata C JSON_parse (before @ TimerFired # events) = Fulfilled Map.empty) \<and>
   (metadata_promise (foldl (handle JSON_parse) request_sent before) = Pending \<longrightarrow>
      getAzureVmMetadata C JSON_parse (before @ RequestFailed err # events) = Fulfilled Map.empty) \<and>
   (\<not> status_ok statusCode \<longrightarrow>
      getAzureVmMetadata C JSON_parse (Response statusCode # map Data chunks @ End # events) =
        Fulfilled Map.empty) \<and>
   (status_ok statusCode \<and> JSON_parse (concat chunks) = Inl error \<longrightarrow>
      getAzureVmMetadata C JSON_parse (Response statusCode # map Data chunks @ End # events) =
        Fulfilled Map.empty) \<and>
   (status_ok statusCode \<and> JSON_parse (concat chunks) = Inr JNull \<longrightarrow>
      getAzureVmMetadata C JSON_parse (Response statusCode # map Data chunks @ End # events) =
        Fulfilled Map.empty) \<and>
   (status_ok statusCode \<and> JSON_parse (concat chunks) = Inr metadata \<and> metadata \<noteq> JNull \<longrightarrow>
      (\<exists>attributes.
         getAzureVmMetadata C JSON_parse (Response statusCode # map Data chunks @ End # events) =
           Fulfilled attributes \<and>
         dom attributes = set (attrNames C)))"
proof (intro conjI allI impI)
  fix err
  show "getAzureVmMetadata C JSON_parse events \<noteq> Rejected err"
    by (simp add: getAzureVmMetadata_awaited split: promise.splits sum.splits)
next
  show "getAzureVmMetadata C JSON_parse events = Pending \<or>
    getAzureVmMetadata C JSON_parse events = Fulfilled Map.empty \<or>
    (\<exists>attributes. getAzureVmMetadata C JSON_parse events = Fulfilled attributes \<and>
       dom attributes = set (attrNames C))"
    by (rule getAzureVmMetadata_settled)
next
  assume "timeoutId (foldl (handle JSON_parse) request_sent before) \<and>
    metadata_promise (foldl (handle JSON_parse) request_sent before) = Pending"
  then show "getAzureVmMetadata C JSON_parse (before @ TimerFired # events) = Fulfilled Map.empty"
    by (simp only: getAzureVmMetadata_awaited timer_while_armed promise.case)
next
  assume "metadata_promise (foldl (handle JSON_parse) request_sent before) = Pending"
  then show "getAzureVmMetadata C JSON_parse (before @ RequestFailed err # events) = Fulfilled Map.empty"
    by (simp only: getAzureVmMetadata_awaited failure_while_pending promise.case)
next
  assume "\<not> status_ok statusCode"
  then show "getAzureVmMetadata C JSON_parse (Response statusCode # map Data chunks @ End # events) =
      Fulfilled Map.empty"
    by (simp only: getAzureVmMetadata_awaited response_ended if_False promise.case)
next
  assume "status_ok statusCode \<and> JSON_parse (concat chunks) = Inl error"
  then show "getAzureVmMetadata C JSON_parse (Response statusCode # map Data chunks @ End # events) =
      Fulfilled Map.empty"
    by (simp only: getAzureVmMetadata_awaited response_ended if_True sum.case promise.case)
next
  assume "status_ok statusCode \<and> JSON_parse (concat chunks) = Inr JNull"
  then show "getAzureVmMetadata C JSON_parse (Response statusCode # map Data chunks @ End # events) =
      Fulfilled Map.empty"
    by (simp only: getAzureVmMetadata_awaited response_ended if_True sum.case promise.case
        attributes_of_null)
next
  assume ok: "status_ok statusCode \<and> JSON_parse (concat chunks) = Inr metadata \<and> metadata \<noteq> JNull"
  then obtain attributes where "attributes_of C metadata = Inr attributes"
    and "dom attributes = set (attrNames C)"
    using attributes_of_keys by blast
  with ok show "\<exists>attributes.
      getAzureVmMetadata C JSON_parse (Response statusCode # map Data chunks @ End # events) =
        Fulfilled attributes \<and>
      dom attributes = set (attrNames C)"
    by (simp only: getAzureVmMetadata_awaited response_ended if_True sum.case promise.case) simp
qed

theorem getAzureVmMetadata_never_rejects_witness:
  "status_ok (Some 200) \<and> \<not> status_ok (Some 404) \<and>
   example_parse (concat [''{\"name\":'', ''\"vm1\"}'']) = Inr (JObject [(''name'', JString ''vm1'')]) \<and>
   example_parse (concat [''<html>'']) = Inl SyntaxError \<and>
   example_parse (concat [''null'']) = Inr JNull \<and>
   getAzureVmMetadata azure_constants example_parse [TimerFired] = Fulfilled Map.empty \<and>
   getAzureVmMetadata azure_constants example_parse
     [Response (Some 200), Data ''nu'', RequestFailed ''socket hang up''] = Fulfilled Map.empty \<and>
   getAzureVmMetadata azure_constants example_parse [Response (Some 404), End] = Fulfilled Map.empty \<and>
   getAzureVmMetadata azure_constants example_parse [Response (Some 200), Data ''<html>'', End] =
     Fulfilled Map.empty \<and>
   getAzureVmMetadata azure_constants example_parse [Response (Some 200), Data ''null'', End] =
     Fulfilled Map.empty \<and>
   (\<exists>attributes.
      getAzureVmMetadata azure_constants example_parse
        [Response (Some 200), Data ''{\"name\":'', Data ''\"vm1\"}'', End] = Fulfilled attributes \<and>
      dom attributes = set (attrNames azure_constants))"
proof -
  have ok: "status_ok (Some 200)" and bad: "\<not> status_ok (Some 404)"
    by (simp_all add: status_ok_def)
  have object: "example_parse (concat [''{\"name\":'', ''\"vm1\"}'']) =
      Inr (JObject [(''name'', JString ''vm1'')])"
    and html: "example_parse (concat [''<html>'']) = Inl SyntaxError"
    and null: "example_parse (concat [''null'']) = Inr JNull"
    by (simp_all add: example_parse_def)
  note run = getAzureVmMetadata_never_rejects [of azure_constants example_parse "[]"]
  have pending: "metadata_promise
      (foldl (handle example_parse) request_sent [Response (Some 200), Data ''nu'']) = Pending"
    by (simp add: request_sent_def)
  have armed: "timeoutId (foldl (handle example_parse) request_sent [])"
    "metadata_promise (foldl (handle example_parse) request_sent []) = Pending"
    by (simp_all add: request_sent_def)
  from run [of "[]"] armed
  have "getAzureVmMetadata azure_constants example_parse [TimerFired] = Fulfilled Map.empty"
    by simp
  moreover from run [of "[Response (Some 200), Data ''nu'']" "''socket hang up''"] pending
  have "getAzureVmMetadata azure_constants example_parse
      [Response (Some 200), Data ''nu'', RequestFailed ''socket hang up''] = Fulfilled Map.empty"
    by simp
  moreover from run [of _ _ "Some 404" "[]"] bad
  have "getAzureVmMetadata azure_constants example_parse [Response (Some 404), End] = Fulfilled Map.empty"
    by simp
  moreover from run [of _ _ "Some 200" "[''<html>'']" SyntaxError] ok html
  have "getAzureVmMetadata azure_constants example_parse [Response (Some 200), Data ''<html>'', End] =
      Fulfilled Map.empty"
    by simp
  moreover from run [of _ _ "Some 200" "[''null'']"] ok null
  have "getAzureVmMetadata azure_constants example_parse [Response (Some 200), Data ''null'', End] =
      Fulfilled Map.empty"
    by simp
  moreover from run [of _ _ "Some 200" "[''{\"name\":'', ''\"vm1\"}'']" _ "JObject [(''name'', JString ''vm1'')]"]
    ok object
  have "\<exists>attributes.
      getAzureVmMetadata azure_constants example_parse
        [Response (Some 200), Data ''{\"name\":'', Data ''\"vm1\"}'', End] = Fulfilled attributes \<and>
      dom attributes = set (attrNames azure_constants)"
    by simp
  ultimately show ?thesis
    using ok bad object html null by blast
qed

text \<open>
  A response with status 200 whose body is the JSON text \<open>null\<close> is a successful,
  well-formed answer, and the promise is fulfilled with the empty mapping, whose keys
  are not the ten names.
\<close>

theorem getAzureVmMetadata_null_body:
  "status_ok (Some 200) \<and>
   example_parse ''null'' = Inr JNull \<and>
   getAzureVmMetadata azure_constants example_parse [Response (Some 200), Data ''null'', End] =
     Fulfilled Map.empty \<and>
   dom (Map.empty :: DetectedResourceAttributes) \<noteq> set (attrNames azure_constants)"
  by (simp add: getAzureVmMetadata_awaited request_sent_def status_ok_def example_parse_def
      resolve_def attributes_of_null attrNames_def)

section \<open>Properties of the Dispatcher\<close>

text \<open>
  C8. When the pre-span hook of the resolved extension throws, \<open>instrumentCall\<close> logs
  what it threw, starts the span with the default RequestMetadata, invokes the
  underlying operation once and returns that operation's own outcome; a successful
  underlying call stays successful, also when the response hook throws as well, and
  the span then ends without an error status.
\<close>

theorem instrumentCall_hook_throws:
  assumes "preSpanHook (resolve_extension registry service)
             (normalize service operation rawParams reg) config = Inl thrown"
  shows "fst (instrumentCall registry default_metadata config service operation rawParams reg underlyingInvoke) =
           underlyingInvoke default_metadata \<and>
         take 3 (snd (instrumentCall registry default_metadata config service operation rawParams reg
             underlyingInvoke)) =
           [Logged thrown, SpanStarted default_metadata, Invoked] \<and>
         count_list (snd (instrumentCall registry default_metadata config service operation rawParams reg
             underlyingInvoke)) Invoked = 1 \<and>
         (\<forall>result. underlyingInvoke default_metadata = Inr result \<longrightarrow>
            fst (instrumentCall registry default_metadata config service operation rawParams reg
              underlyingInvoke) = Inr result \<and>
            last (snd (instrumentCall registry default_metadata config service operation rawParams reg
              underlyingInvoke)) = SpanEnded None)"
  using assms
  by (auto simp: instrumentCall_def classify_def respond_def Let_def split: option.splits sum.splits)

theorem instrumentCall_hook_throws_witness:
  "preSpanHook (resolve_extension example_registry ''Kinesis'')
     (normalize ''Kinesis'' ''PutRecord'' None None) () = Inl ''hook failed'' \<and>
   instrumentCall example_registry example_default () ''Kinesis'' ''PutRecord'' None None
       (\<lambda>started. Inr ''sequence-number'') =
     (Inr ''sequence-number'',
      [Logged ''hook failed'', SpanStarted example_default, Invoked,
       Logged ''response hook failed'', SpanEnded None])"
proof -
  have throws: "preSpanHook (resolve_extension example_registry ''Kinesis'')
      (normalize ''Kinesis'' ''PutRecord'' None None) () = Inl ''hook failed''"
    by (simp add: resolve_extension_def example_registry_def)
  have run: "instrumentCall example_registry example_default () ''Kinesis'' ''PutRecord'' None None
       (\<lambda>started. Inr ''sequence-number'') =
     (Inr ''sequence-number'',
      [Logged ''hook failed'', SpanStarted example_default, Invoked,
       Logged ''response hook failed'', SpanEnded None])"
    by (simp add: instrumentCall_def classify_def respond_def resolve_extension_def
        example_registry_def Let_def)
  from instrumentCall_hook_throws [OF throws, of example_default "\<lambda>started. Inr ''sequence-number''"]
    throws run
  show ?thesis by simp
qed

end
